theory Spec2Isabelle
  imports Main
begin

section \<open>Errors and gRPC status codes\<close>

text \<open>
  The Go \<^verbatim>\<open>error\<close> values that \<^verbatim>\<open>cds.go\<close> distinguishes: the sentinel \<^verbatim>\<open>io.EOF\<close>,
  errors carrying a gRPC status, and every other error (of which \<^verbatim>\<open>errors.New\<close>
  builds one from its message). A nil error is \<open>None\<close>.
\<close>

datatype Code = OK | Canceled | Unknown | OtherCode nat

datatype error = EOF | StatusError Code string | PlainError string

text \<open>
  \<^verbatim>\<open>status.Code(err)\<close>: the code of a status error, \<^verbatim>\<open>codes.OK\<close> for nil and
  \<^verbatim>\<open>codes.Unknown\<close> for any other error.
\<close>

fun status_Code :: "error option \<Rightarrow> Code" where
  "status_Code None = OK"
| "status_Code (Some (StatusError c m)) = c"
| "status_Code (Some e) = Unknown"

definition errors_New :: "string \<Rightarrow> error" where
  "errors_New msg = PlainError msg"

section \<open>Messages\<close>

text \<open>
  Of \<^verbatim>\<open>core.Node\<close> only the field \<^verbatim>\<open>Id\<close> is read; of \<^verbatim>\<open>model.Proxy\<close> only \<^verbatim>\<open>ID\<close>.
  \<^verbatim>\<open>DiscoveryRequest.Node\<close> and \<^verbatim>\<open>DiscoveryRequest.ErrorDetail\<close> are pointers:
  \<open>None\<close> is nil. Clusters and marshalled payloads are opaque.
\<close>

record Node =
  NodeId :: string

record DiscoveryRequest =
  Node :: "Node option"
  ErrorDetail :: "string option"

record Proxy =
  ID :: string

datatype Cluster = Cluster string

datatype Any = Any string

record DiscoveryResponse =
  TypeUrl :: string
  VersionInfo :: string
  Nonce :: string
  Resources :: "Any list"

section \<open>Connections, channels and the registry\<close>

text \<open>
  A \<^verbatim>\<open>*CdsConnection\<close> is a reference into a store of connections, so that two
  registry keys may hold the same connection. A reference the store does not hold
  stands for the nil pointer: dereferencing it panics. \<^verbatim>\<open>pushChannel\<close> is the content
  of the buffered channel, oldest value first; line 100 makes it with capacity 1.
\<close>

type_synonym conref = nat

record CdsConnection =
  PeerAddr :: string
  Connect :: nat
  modelNode :: "Proxy option"
  pushChannel :: "bool list"

definition pushChannel_cap :: nat where
  "pushChannel_cap = 1"

text \<open>
  The package-level variables \<^verbatim>\<open>cdsDebug\<close> and \<^verbatim>\<open>cdsConnections\<close>, and the store of
  allocated connections (\<open>allocated\<close> is the next fresh reference).
\<close>

record world =
  cdsDebug :: bool
  cdsConnections :: "string \<rightharpoonup> conref"
  conns :: "conref \<rightharpoonup> CdsConnection"
  allocated :: nat

text \<open>
  A send on a buffered channel: the value is appended when the buffer has room;
  otherwise the sender blocks (\<open>None\<close>) until a receiver takes a value.
\<close>

definition chan_send :: "nat \<Rightarrow> 'a list \<Rightarrow> 'a \<Rightarrow> 'a list option" where
  "chan_send cap buf v = (if length buf < cap then Some (buf @ [v]) else None)"

section \<open>cdsPushAll\<close>

text \<open>
  \<^verbatim>\<open>cdsPushAll\<close> copies the registry under the lock and then ranges over the copy,
  executing \<^verbatim>\<open>cdsCon.pushChannel <- true\<close> for each entry. Go leaves the order of a
  map range unspecified, so the order in which the keys are visited is a parameter.
  The send is a plain channel send: on a full channel the goroutine that called
  \<^verbatim>\<open>cdsPushAll\<close> is suspended at that entry (\<open>Blocked\<close>, naming the key).
\<close>

datatype push_result = Completed world | Blocked string world | PushPanic world

fun cdsPushAll_range :: "(string \<rightharpoonup> conref) \<Rightarrow> string list \<Rightarrow> world \<Rightarrow> push_result" where
  "cdsPushAll_range tmpMap [] w = Completed w"
| "cdsPushAll_range tmpMap (k # ks) w =
     (case tmpMap k of
        None \<Rightarrow> cdsPushAll_range tmpMap ks w
      | Some c \<Rightarrow>
          (case conns w c of
             None \<Rightarrow> PushPanic w
           | Some cdsCon \<Rightarrow>
               (case chan_send pushChannel_cap (pushChannel cdsCon) True of
                  None \<Rightarrow> Blocked k w
                | Some buf \<Rightarrow>
                    cdsPushAll_range tmpMap ks
                      (w\<lparr>conns := (conns w)(c \<mapsto> cdsCon\<lparr>pushChannel := buf\<rparr>)\<rparr>))))"

definition cdsPushAll :: "string list \<Rightarrow> world \<Rightarrow> push_result" where
  "cdsPushAll order w = (let tmpMap = cdsConnections w in cdsPushAll_range tmpMap order w)"

section \<open>removeCdsCon and FetchClusters\<close>

text \<open>The body of \<^verbatim>\<open>removeCdsCon\<close> is empty: the registry is returned as it was.\<close>

definition removeCdsCon :: "string \<Rightarrow> conref \<Rightarrow> world \<Rightarrow> world" where
  "removeCdsCon node connection w = w"

text \<open>\<^verbatim>\<open>FetchClusters\<close> returns the pair (response, error).\<close>

definition FetchClusters :: "'ctx \<Rightarrow> DiscoveryRequest \<Rightarrow> DiscoveryResponse option \<times> error option" where
  "FetchClusters ctx req = (None, Some (errors_New ''not implemented''))"

section \<open>Collaborators outside this file\<close>

text \<open>
  \<^verbatim>\<open>StreamClusters\<close> calls functions whose code is not part of \<^verbatim>\<open>cds.go\<close>; they are
  parameters. Those whose result may differ from one call to the next
  (\<^verbatim>\<open>versionInfo\<close>, \<^verbatim>\<open>nonce\<close>, \<^verbatim>\<open>BuildClusters\<close>, \<^verbatim>\<open>stream.Send\<close>) take the number of
  responses this stream has computed so far.
\<close>

record env =
  clusterType :: string
  versionInfo :: "nat \<Rightarrow> string"
  nonce :: "nat \<Rightarrow> string"
  MarshalAny :: "Cluster \<Rightarrow> error + Any"
  ParseServiceNode :: "string \<Rightarrow> error + Proxy"
  connectionID :: "string \<Rightarrow> string"
  BuildClusters :: "nat \<Rightarrow> Proxy \<Rightarrow> Cluster list \<times> error option"
  stream_Send :: "nat \<Rightarrow> DiscoveryResponse \<Rightarrow> error option"

section \<open>CdsConnection.clusters\<close>

text \<open>
  The loop of \<^verbatim>\<open>clusters\<close> drops the error of \<^verbatim>\<open>types.MarshalAny\<close> and dereferences
  the returned pointer, which is nil when marshalling failed: \<open>None\<close> is that panic.
\<close>

fun marshal_resources :: "(Cluster \<Rightarrow> error + Any) \<Rightarrow> Cluster list \<Rightarrow> Any list \<Rightarrow> Any list option" where
  "marshal_resources m [] out = Some out"
| "marshal_resources m (c # cs) out =
     (case m c of
        Inl err \<Rightarrow> None
      | Inr cc \<Rightarrow> marshal_resources m cs (out @ [cc]))"

definition clusters :: "env \<Rightarrow> nat \<Rightarrow> Cluster list \<Rightarrow> DiscoveryResponse option" where
  "clusters e n response =
     (case marshal_resources (MarshalAny e) response [] of
        None \<Rightarrow> None
      | Some rs \<Rightarrow>
          Some \<lparr>TypeUrl = clusterType e, VersionInfo = versionInfo e n,
                Nonce = nonce e n, Resources = rs\<rparr>)"

section \<open>StreamClusters\<close>

text \<open>
  The variables of one call of \<^verbatim>\<open>StreamClusters\<close> that outlive a loop iteration or
  are shared with the reader goroutine. \<open>pushes\<close> counts how often the loop has
  reached line 163; it indexes the time-dependent collaborators.
\<close>

record stream =
  peerAddr :: string
  receiveError :: "error option"
  initialRequestReceived :: bool
  con :: conref
  node :: string
  pushes :: nat

text \<open>What a stream does that can be observed from outside, in order.\<close>

datatype action =
    Errorf string
  | Warnf string
  | Infof string
  | CallRemoveCdsCon string conref
  | CallBuildClusters Proxy
  | StreamSend DiscoveryResponse

text \<open>
  Lines 87 to 106: the peer address, the fresh connection with its empty push channel
  of capacity 1, and the initial values of the variables. \<open>peer\<close> is the address
  \<^verbatim>\<open>peer.FromContext\<close> found, if any; \<open>now\<close> is \<^verbatim>\<open>time.Now()\<close>.
\<close>

definition StreamClusters_open :: "string option \<Rightarrow> nat \<Rightarrow> world \<Rightarrow> stream \<times> world" where
  "StreamClusters_open peer now w =
     (let pa = (case peer of None \<Rightarrow> ''Unknown peer address'' | Some a \<Rightarrow> a);
          c = allocated w;
          cdsCon = \<lparr>PeerAddr = pa, Connect = now, modelNode = None, pushChannel = []\<rparr>
      in (\<lparr>peerAddr = pa, receiveError = None, initialRequestReceived = False,
            con = c, node = [], pushes = 0\<rparr>,
          w\<lparr>conns := (conns w)(c \<mapsto> cdsCon), allocated := Suc c\<rparr>))"

text \<open>
  One iteration of the reader goroutine (lines 109 to 123) on the result of
  \<^verbatim>\<open>stream.Recv()\<close>: a request is handed to \<^verbatim>\<open>reqChannel\<close>; an error is logged,
  \<^verbatim>\<open>removeCdsCon\<close> is called, \<^verbatim>\<open>receiveError\<close> is set unless the error is a
  cancellation or \<^verbatim>\<open>io.EOF\<close>, and the deferred \<^verbatim>\<open>close(reqChannel)\<close> runs.
\<close>

datatype reader_result = ChanSend DiscoveryRequest | ChanClose

definition reader_iteration ::
  "error + DiscoveryRequest \<Rightarrow> stream \<Rightarrow> world \<Rightarrow> reader_result \<times> stream \<times> world \<times> action list" where
  "reader_iteration r s w =
     (case r of
        Inl err \<Rightarrow>
          (let w' = removeCdsCon (node s) (con s) w;
               s' = (if status_Code (Some err) = Canceled \<or> err = EOF then s
                     else s\<lparr>receiveError := Some err\<rparr>)
           in (ChanClose, s', w',
               [Errorf ''CDS: close for client'', CallRemoveCdsCon (node s) (con s)]))
      | Inr req \<Rightarrow> (ChanSend req, s, w, []))"

text \<open>
  The nil dereferences of \<^verbatim>\<open>StreamClusters\<close>: \<^verbatim>\<open>discReq.Node.Id\<close> on line 135,
  \<^verbatim>\<open>*con.modelNode\<close> on line 163, \<^verbatim>\<open>*cc\<close> on line 79, and a field of \<^verbatim>\<open>con\<close> itself.
\<close>

datatype panic = NilNode | NilModelNode | NilAny | NilConnection

text \<open>
  How control leaves a part of the loop body: on to line 163 (\<open>Next\<close>), back to the
  head of the loop (\<open>Continue\<close>), still suspended in the \<^verbatim>\<open>select\<close> (\<open>Wait\<close>), out of
  the function with its result (\<open>Return\<close>), or a run-time panic.
\<close>

datatype flow = Next | Continue | Wait | Return "error option" | Panic panic

text \<open>
  What the \<^verbatim>\<open>select\<close> of line 127 received: a request from \<^verbatim>\<open>reqChannel\<close>
  (\<open>None\<close> when the channel is closed, \<^verbatim>\<open>ok\<close> being false), or the push signal.
\<close>

datatype selected = FromReqChannel "DiscoveryRequest option" | FromPushChannel

text \<open>
  Lines 128 to 161. The push case takes the pending signal from the channel; with no
  signal pending that case is not ready and the \<^verbatim>\<open>select\<close> goes on waiting.
  \<^verbatim>\<open>discReq.Node.Id\<close> on line 135 is evaluated whether or not \<^verbatim>\<open>discReq.Node\<close> is nil.
\<close>

definition select_case ::
  "env \<Rightarrow> selected \<Rightarrow> stream \<Rightarrow> world \<Rightarrow> flow \<times> stream \<times> world \<times> action list" where
  "select_case e sel s w =
     (case sel of
        FromReqChannel None \<Rightarrow> (Return (receiveError s), s, w, [])
      | FromReqChannel (Some discReq) \<Rightarrow>
          (case Node discReq of
             None \<Rightarrow> (Panic NilNode, s, w, [])
           | Some nd \<Rightarrow>
               (let s1 = (if node s = [] then s\<lparr>node := connectionID e (NodeId nd)\<rparr> else s)
                in case ParseServiceNode e (NodeId nd) of
                     Inl err \<Rightarrow> (Return (Some err), s1, w, [])
                   | Inr nt \<Rightarrow>
                       (case conns w (con s1) of
                          None \<Rightarrow> (Panic NilConnection, s1, w, [])
                        | Some c \<Rightarrow>
                            (let w1 = w\<lparr>conns := (conns w)(con s1 \<mapsto> c\<lparr>modelNode := Some nt\<rparr>)\<rparr>
                             in if initialRequestReceived s1
                                then (Continue, s1, w1,
                                      (if ErrorDetail discReq \<noteq> None then [Warnf ''CDS: ACK ERROR''] else [])
                                      @ (if cdsDebug w1 then [Infof ''CDS: ACK''] else []))
                                else (Next, s1\<lparr>initialRequestReceived := True\<rparr>, w1,
                                      (if cdsDebug w1 then [Infof ''CDS: REQ''] else []))))))
      | FromPushChannel \<Rightarrow>
          (case conns w (con s) of
             None \<Rightarrow> (Panic NilConnection, s, w, [])
           | Some c \<Rightarrow>
               (case pushChannel c of
                  [] \<Rightarrow> (Wait, s, w, [])
                | v # rest \<Rightarrow> (Next, s, w\<lparr>conns := (conns w)(con s \<mapsto> c\<lparr>pushChannel := rest\<rparr>)\<rparr>, []))))"

text \<open>
  Lines 163 to 176: \<^verbatim>\<open>*con.modelNode\<close> is dereferenced (a panic when it is nil),
  \<^verbatim>\<open>BuildClusters\<close> is called and its error dropped, the response is built and sent.
\<close>

definition push_clusters :: "env \<Rightarrow> stream \<Rightarrow> world \<Rightarrow> flow \<times> stream \<times> world \<times> action list" where
  "push_clusters e s w =
     (case conns w (con s) of
        None \<Rightarrow> (Panic NilConnection, s, w, [])
      | Some c \<Rightarrow>
          (case modelNode c of
             None \<Rightarrow> (Panic NilModelNode, s, w, [])
           | Some nt \<Rightarrow>
               (let n = pushes s;
                    s' = s\<lparr>pushes := Suc n\<rparr>;
                    rawClusters = fst (BuildClusters e n nt)
                in case clusters e n rawClusters of
                     None \<Rightarrow> (Panic NilAny, s', w, [CallBuildClusters nt])
                   | Some response \<Rightarrow>
                       (case stream_Send e n response of
                          Some err \<Rightarrow>
                            (Return (Some err), s', w,
                             [CallBuildClusters nt, StreamSend response,
                              Warnf ''CDS: Send failure, closing grpc''])
                        | None \<Rightarrow>
                            (Continue, s', w,
                             [CallBuildClusters nt, StreamSend response]
                             @ (if cdsDebug w then [Infof ''CDS: PUSH''] else []))))))"

text \<open>The body of the loop of line 125.\<close>

definition loop_body ::
  "env \<Rightarrow> selected \<Rightarrow> stream \<Rightarrow> world \<Rightarrow> flow \<times> stream \<times> world \<times> action list" where
  "loop_body e sel s w =
     (case select_case e sel s w of
        (Next, s1, w1, as) \<Rightarrow>
          (case push_clusters e s1 w1 of (f, s2, w2, bs) \<Rightarrow> (f, s2, w2, as @ bs))
      | r \<Rightarrow> r)"

text \<open>
  The two goroutines of a stream meet only at \<^verbatim>\<open>reqChannel\<close> (and at \<^verbatim>\<open>receiveError\<close>,
  written before the channel is closed), so a run is given by what the stream
  meets, in order: \<open>Recv r\<close>, the reader's \<^verbatim>\<open>stream.Recv()\<close> returns \<open>r\<close> and the
  handler's \<^verbatim>\<open>select\<close> takes what the reader did with it from \<^verbatim>\<open>reqChannel\<close>;
  \<open>Push\<close>, the \<^verbatim>\<open>select\<close> tries the push case.
\<close>

datatype event = Recv "error + DiscoveryRequest" | Push

definition step ::
  "env \<Rightarrow> event \<Rightarrow> stream \<Rightarrow> world \<Rightarrow> flow \<times> stream \<times> world \<times> action list" where
  "step e ev s w =
     (case ev of
        Push \<Rightarrow> loop_body e FromPushChannel s w
      | Recv r \<Rightarrow>
          (case reader_iteration r s w of
             (res, s1, w1, as) \<Rightarrow>
               (case loop_body e (FromReqChannel (case res of ChanSend req \<Rightarrow> Some req | ChanClose \<Rightarrow> None)) s1 w1 of
                  (f, s2, w2, bs) \<Rightarrow> (f, s2, w2, as @ bs))))"

text \<open>
  The loop over the events of a run. With no event left the handler is suspended in
  the \<^verbatim>\<open>select\<close>; after a return or a panic the remaining events do not reach it.
\<close>

fun StreamClusters_loop ::
  "env \<Rightarrow> event list \<Rightarrow> stream \<Rightarrow> world \<Rightarrow> flow \<times> stream \<times> world \<times> action list" where
  "StreamClusters_loop e [] s w = (Wait, s, w, [])"
| "StreamClusters_loop e (ev # evs) s w =
     (case step e ev s w of
        (f, s1, w1, as) \<Rightarrow>
          (if f = Continue \<or> f = Wait
           then (case StreamClusters_loop e evs s1 w1 of
                   (f', s2, w2, bs) \<Rightarrow> (f', s2, w2, as @ bs))
           else (f, s1, w1, as)))"

definition StreamClusters ::
  "env \<Rightarrow> string option \<Rightarrow> nat \<Rightarrow> event list \<Rightarrow> world \<Rightarrow> flow \<times> stream \<times> world \<times> action list" where
  "StreamClusters e peer now evs w =
     (case StreamClusters_open peer now w of (s, w0) \<Rightarrow> StreamClusters_loop e evs s w0)"

section \<open>Cdsz\<close>

text \<open>
  \<^verbatim>\<open>req.Form\<close> is a \<^verbatim>\<open>url.Values\<close>, a map from a name to its values; \<^verbatim>\<open>Get\<close> is the
  first value of the name, or the empty string.
\<close>

definition Form_Get :: "(string \<rightharpoonup> string list) \<Rightarrow> string \<Rightarrow> string" where
  "Form_Get form key = (case form key of None \<Rightarrow> [] | Some [] \<Rightarrow> [] | Some (v # vs) \<Rightarrow> v)"

text \<open>
  What \<^verbatim>\<open>Cdsz\<close> writes to the response: the marshalled registry, or the text of the
  marshalling error. \<^verbatim>\<open>json.Marshal\<close> is a parameter. A call of \<^verbatim>\<open>cdsPushAll\<close> that
  blocks or panics does so inside \<^verbatim>\<open>Cdsz\<close>.
\<close>

datatype written = Data string | ErrorText error

datatype cdsz_result = CdszReturned world "written list" | CdszBlocked string world | CdszPanic world

definition Cdsz ::
  "((string \<rightharpoonup> conref) \<Rightarrow> (conref \<rightharpoonup> CdsConnection) \<Rightarrow> error + string) \<Rightarrow>
   string list \<Rightarrow> (string \<rightharpoonup> string list) \<Rightarrow> world \<Rightarrow> cdsz_result" where
  "Cdsz json_Marshal order form w =
     (if Form_Get form ''debug'' \<noteq> []
      then CdszReturned (w\<lparr>cdsDebug := (Form_Get form ''debug'' = ''1'')\<rparr>) []
      else (case (if Form_Get form ''push'' \<noteq> [] then cdsPushAll order w else Completed w) of
              Blocked k w1 \<Rightarrow> CdszBlocked k w1
            | PushPanic w1 \<Rightarrow> CdszPanic w1
            | Completed w1 \<Rightarrow>
                (case json_Marshal (cdsConnections w1) (conns w1) of
                   Inl err \<Rightarrow> CdszReturned w1 [ErrorText err]
                 | Inr data \<Rightarrow> CdszReturned w1 [Data data])))"

section \<open>Broadcast triggers in a row\<close>

text \<open>
  The world a call of \<^verbatim>\<open>cdsPushAll\<close> leaves behind, whether it ran to its end or is
  suspended at a full channel, and the world after several calls, each started in the
  world left by the one before (the callers may be different goroutines, so a
  suspended call does not keep the next one from starting).
\<close>

fun push_world :: "push_result \<Rightarrow> world" where
  "push_world (Completed w) = w"
| "push_world (Blocked k w) = w"
| "push_world (PushPanic w) = w"

fun cdsPushAll_triggers :: "string list list \<Rightarrow> world \<Rightarrow> world" where
  "cdsPushAll_triggers [] w = w"
| "cdsPushAll_triggers (order # orders) w =
     cdsPushAll_triggers orders (push_world (cdsPushAll order w))"

section \<open>A stream among broadcasts\<close>







section \<open>Sample collaborators and inputs\<close>

text \<open>
  Concrete collaborators, worlds, stream states and a request, on which the
  definitions above are run: the parser rejects the empty node string, the producer
  returns one cluster (or, for \<open>failing_producer\<close>, an error), marshalling and sending
  succeed.
\<close>

definition example_world :: world where
  "example_world =
     \<lparr>cdsDebug = False, cdsConnections = Map.empty, conns = Map.empty, allocated = 0\<rparr>"

definition example_env :: env where
  "example_env =
     \<lparr>clusterType = ''type.googleapis.com/envoy.api.v2.Cluster'',
      versionInfo = (\<lambda>n. ''version''),
      nonce = (\<lambda>n. ''nonce''),
      MarshalAny = (\<lambda>c. case c of Cluster name \<Rightarrow> Inr (Any name)),
      ParseServiceNode =
        (\<lambda>nodeId. if nodeId = [] then Inl (PlainError ''missing parts in the service node'')
                   else Inr \<lparr>ID = nodeId\<rparr>),
      connectionID = (\<lambda>nodeId. nodeId @ ''-1''),
      BuildClusters = (\<lambda>n proxy. ([Cluster ''outbound''], None)),
      stream_Send = (\<lambda>n response. None)\<rparr>"

definition failing_producer :: env where
  "failing_producer =
     example_env\<lparr>BuildClusters := (\<lambda>n proxy. ([], Some (PlainError ''no service registry'')))\<rparr>"

definition example_request :: "string \<Rightarrow> DiscoveryRequest" where
  "example_request nodeId = \<lparr>Node = Some \<lparr>NodeId = nodeId\<rparr>, ErrorDetail = None\<rparr>"

text \<open>
  A stream that has answered its initial request from "svc-a", and its world
  (\<open>example_active_reached\<close> below runs the code up to them).
\<close>

definition example_stream :: stream where
  "example_stream =
     \<lparr>peerAddr = ''10.0.0.1:4711'', receiveError = None, initialRequestReceived = True,
      con = 0, node = ''svc-a-1'', pushes = 1\<rparr>"

definition example_active :: world where
  "example_active =
     \<lparr>cdsDebug = False, cdsConnections = Map.empty,
      conns = [0 \<mapsto> \<lparr>PeerAddr = ''10.0.0.1:4711'', Connect = 0,
                      modelNode = Some \<lparr>ID = ''svc-a''\<rparr>, pushChannel = []\<rparr>],
      allocated = 1\<rparr>"

text \<open>
  Worlds whose registry holds one connection: with an empty push channel, and with a
  signal already pending.
\<close>

definition example_registered :: world where
  "example_registered =
     \<lparr>cdsDebug = True, cdsConnections = [''sidecar~a-1'' \<mapsto> 0],
      conns = [0 \<mapsto> \<lparr>PeerAddr = ''10.0.0.1:4711'', Connect = 0,
                      modelNode = None, pushChannel = []\<rparr>],
      allocated = 1\<rparr>"

definition example_pending :: world where
  "example_pending =
     \<lparr>cdsDebug = True, cdsConnections = [''sidecar~a-1'' \<mapsto> 0],
      conns = [0 \<mapsto> \<lparr>PeerAddr = ''10.0.0.1:4711'', Connect = 0,
                      modelNode = Some \<lparr>ID = ''svc-a''\<rparr>, pushChannel = [True]\<rparr>],
      allocated = 1\<rparr>"

lemmas example_defs =
  StreamClusters_def StreamClusters_open_def example_world_def example_env_def
  example_request_def step_def reader_iteration_def loop_body_def select_case_def
  push_clusters_def clusters_def Let_def

lemma example_active_reached:
  "StreamClusters example_env (Some ''10.0.0.1:4711'') 0
     [Recv (Inr (example_request ''svc-a''))] example_world
   = (Wait, example_stream, example_active,
      [CallBuildClusters \<lparr>ID = ''svc-a''\<rparr>,
       StreamSend \<lparr>TypeUrl = ''type.googleapis.com/envoy.api.v2.Cluster'',
                   VersionInfo = ''version'', Nonce = ''nonce'',
                   Resources = [Any ''outbound'']\<rparr>])"
  by (simp add: example_defs example_stream_def example_active_def)

section \<open>cdsPushAll: a blocking send to every registered connection\<close>

lemma chan_send_full: "buf \<noteq> [] \<Longrightarrow> chan_send pushChannel_cap buf v = None"
  by (cases buf) (simp_all add: chan_send_def pushChannel_cap_def)

lemma chan_send_empty: "chan_send pushChannel_cap [] v = Some [v]"
  by (simp add: chan_send_def pushChannel_cap_def)

lemma chan_send_Some: "chan_send pushChannel_cap buf v = Some buf' \<Longrightarrow> buf = [] \<and> buf' = [v]"
  by (cases buf) (simp_all add: chan_send_def pushChannel_cap_def split: if_splits)

text \<open>A range that runs to its end has not touched a connection whose channel was full.\<close>

lemma range_completed_keeps_full:
  "cdsPushAll_range tmpMap ks w = Completed w' \<Longrightarrow> conns w c = Some cd \<Longrightarrow> pushChannel cd \<noteq> []
   \<Longrightarrow> conns w' c = Some cd"
proof (induction ks arbitrary: w)
  case Nil
  then show ?case by simp
next
  case (Cons k ks)
  show ?case
  proof (cases "tmpMap k")
    case None
    with Cons show ?thesis by simp
  next
    case (Some c')
    note c' = this
    show ?thesis
    proof (cases "conns w c'")
      case None
      with c' Cons.prems show ?thesis by simp
    next
      case (Some cd')
      note cd' = this
      show ?thesis
      proof (cases "chan_send pushChannel_cap (pushChannel cd') True")
        case None
        with c' cd' Cons.prems show ?thesis by simp
      next
        case (Some buf)
        from chan_send_Some [OF Some] have "pushChannel cd' = []" by simp
        with Cons.prems(2,3) cd' have ne: "c' \<noteq> c" by auto
        let ?w1 = "w\<lparr>conns := (conns w)(c' \<mapsto> cd'\<lparr>pushChannel := buf\<rparr>)\<rparr>"
        from Cons.prems(1) c' cd' Some
        have r: "cdsPushAll_range tmpMap ks ?w1 = Completed w'" by simp
        from ne Cons.prems(2) have "conns ?w1 c = Some cd" by simp
        from Cons.IH [OF r this Cons.prems(3)] show ?thesis .
      qed
    qed
  qed
qed

text \<open>After a range that ran to its end, every visited connection holds one signal.\<close>

lemma range_completed_signals:
  "cdsPushAll_range tmpMap ks w = Completed w' \<Longrightarrow> k \<in> set ks \<Longrightarrow> tmpMap k = Some c
   \<Longrightarrow> \<exists>cd. conns w' c = Some cd \<and> pushChannel cd = [True]"
proof (induction ks arbitrary: w)
  case Nil
  then show ?case by simp
next
  case (Cons k' ks)
  show ?case
  proof (cases "tmpMap k'")
    case None
    with Cons.prems have "k \<noteq> k'" by auto
    with Cons None show ?thesis by simp
  next
    case (Some c')
    note c' = this
    show ?thesis
    proof (cases "conns w c'")
      case None
      with c' Cons.prems show ?thesis by simp
    next
      case (Some cd')
      note cd' = this
      show ?thesis
      proof (cases "chan_send pushChannel_cap (pushChannel cd') True")
        case None
        with c' cd' Cons.prems show ?thesis by simp
      next
        case (Some buf)
        from chan_send_Some [OF Some] have buf: "buf = [True]" by simp
        let ?w1 = "w\<lparr>conns := (conns w)(c' \<mapsto> cd'\<lparr>pushChannel := buf\<rparr>)\<rparr>"
        from Cons.prems(1) c' cd' Some
        have r: "cdsPushAll_range tmpMap ks ?w1 = Completed w'" by simp
        show ?thesis
        proof (cases "k = k'")
          case True
          with c' Cons.prems(3) have "c = c'" by simp
          then have "conns ?w1 c = Some (cd'\<lparr>pushChannel := buf\<rparr>)" by simp
          from range_completed_keeps_full [OF r this] buf
          have "conns w' c = Some (cd'\<lparr>pushChannel := buf\<rparr>)" by simp
          with buf show ?thesis by simp
        next
          case False
          with Cons.prems(2) have "k \<in> set ks" by simp
          from Cons.IH [OF r this Cons.prems(3)] show ?thesis .
        qed
      qed
    qed
  qed
qed

text \<open>No send lets a channel grow beyond its capacity.\<close>

lemma range_bounded:
  "conns w c = Some cd \<Longrightarrow> length (pushChannel cd) \<le> pushChannel_cap
   \<Longrightarrow> \<exists>cd'. conns (push_world (cdsPushAll_range tmpMap ks w)) c = Some cd'
            \<and> length (pushChannel cd') \<le> pushChannel_cap"
proof (induction ks arbitrary: w cd)
  case Nil
  then show ?case by simp
next
  case (Cons k ks)
  show ?case
  proof (cases "tmpMap k")
    case None
    with Cons show ?thesis by simp
  next
    case (Some c')
    note c' = this
    show ?thesis
    proof (cases "conns w c'")
      case None
      with c' Cons.prems show ?thesis by simp
    next
      case (Some cd')
      note cd' = this
      show ?thesis
      proof (cases "chan_send pushChannel_cap (pushChannel cd') True")
        case None
        with c' cd' Cons.prems show ?thesis by simp
      next
        case (Some buf)
        from chan_send_Some [OF Some] have buf: "buf = [True]" by simp
        let ?w1 = "w\<lparr>conns := (conns w)(c' \<mapsto> cd'\<lparr>pushChannel := buf\<rparr>)\<rparr>"
        have "\<exists>cd1. conns ?w1 c = Some cd1 \<and> length (pushChannel cd1) \<le> pushChannel_cap"
          using Cons.prems buf by (simp add: pushChannel_cap_def)
        then obtain cd1 where "conns ?w1 c = Some cd1" "length (pushChannel cd1) \<le> pushChannel_cap"
          by blast
        from Cons.IH [OF this] c' cd' Some show ?thesis by simp
      qed
    qed
  qed
qed

lemma triggers_bounded:
  "conns w c = Some cd \<Longrightarrow> length (pushChannel cd) \<le> pushChannel_cap
   \<Longrightarrow> \<exists>cd'. conns (cdsPushAll_triggers orders w) c = Some cd'
            \<and> length (pushChannel cd') \<le> pushChannel_cap"
proof (induction orders arbitrary: w cd)
  case Nil
  then show ?case by simp
next
  case (Cons order orders)
  from range_bounded [OF Cons.prems, of "cdsConnections w" order]
  obtain cd1 where "conns (push_world (cdsPushAll order w)) c = Some cd1"
    "length (pushChannel cd1) \<le> pushChannel_cap"
    by (auto simp: cdsPushAll_def)
  from Cons.IH [OF this] show ?case by simp
qed

text \<open>
  C1, as the claim states it, fails: with one registered connection whose push channel
  already holds a signal, \<^verbatim>\<open>cdsPushAll\<close> does not skip the connection and return; it
  is suspended in the send to that connection.
\<close>

theorem broadcast_blocks_counterexample:
  "cdsPushAll [''sidecar~a-1''] example_pending = Blocked ''sidecar~a-1'' example_pending"
  by (simp add: cdsPushAll_def example_pending_def chan_send_def pushChannel_cap_def)

text \<open>
  C1, amended: for every connection of the snapshot, \<^verbatim>\<open>cdsPushAll\<close> performs a blocking
  send on the connection's push channel. Visiting a connection whose channel is empty
  buffers one signal and goes on to the next key; visiting one whose channel already
  holds a signal suspends the broadcast there. A broadcast that ran to its end leaves
  exactly one pending signal in every connection of the snapshot. Whatever the number
  of broadcast triggers, a connection that held at most one pending signal before
  holds at most one after.
\<close>

theorem cdsPushAll_blocking_send:
  "(tmpMap k = Some c \<and> conns w c = Some cd \<and> pushChannel cd = [] \<longrightarrow>
      cdsPushAll_range tmpMap (k # ks) w
        = cdsPushAll_range tmpMap ks (w\<lparr>conns := (conns w)(c \<mapsto> cd\<lparr>pushChannel := [True]\<rparr>)\<rparr>))
   \<and> (tmpMap k = Some c \<and> conns w c = Some cd \<and> pushChannel cd \<noteq> [] \<longrightarrow>
        cdsPushAll_range tmpMap (k # ks) w = Blocked k w)
   \<and> (cdsPushAll order w = Completed w' \<and> k \<in> set order \<and> cdsConnections w k = Some c \<longrightarrow>
        (\<exists>cd'. conns w' c = Some cd' \<and> pushChannel cd' = [True]))
   \<and> (conns w c = Some cd \<and> length (pushChannel cd) \<le> pushChannel_cap \<longrightarrow>
        (\<exists>cd'. conns (cdsPushAll_triggers orders w) c = Some cd'
               \<and> length (pushChannel cd') \<le> pushChannel_cap))"
proof (intro conjI impI)
  assume "tmpMap k = Some c \<and> conns w c = Some cd \<and> pushChannel cd = []"
  then show "cdsPushAll_range tmpMap (k # ks) w
        = cdsPushAll_range tmpMap ks (w\<lparr>conns := (conns w)(c \<mapsto> cd\<lparr>pushChannel := [True]\<rparr>)\<rparr>)"
    by (simp add: chan_send_empty)
next
  assume "tmpMap k = Some c \<and> conns w c = Some cd \<and> pushChannel cd \<noteq> []"
  then show "cdsPushAll_range tmpMap (k # ks) w = Blocked k w"
    by (simp add: chan_send_full)
next
  assume "cdsPushAll order w = Completed w' \<and> k \<in> set order \<and> cdsConnections w k = Some c"
  then show "\<exists>cd'. conns w' c = Some cd' \<and> pushChannel cd' = [True]"
    using range_completed_signals [of "cdsConnections w" order w w' k c]
    by (simp add: cdsPushAll_def)
next
  assume "conns w c = Some cd \<and> length (pushChannel cd) \<le> pushChannel_cap"
  then show "\<exists>cd'. conns (cdsPushAll_triggers orders w) c = Some cd'
               \<and> length (pushChannel cd') \<le> pushChannel_cap"
    using triggers_bounded by blast
qed

theorem cdsPushAll_blocking_send_witness:
  "cdsConnections example_registered ''sidecar~a-1'' = Some 0
   \<and> conns example_registered 0
       = Some \<lparr>PeerAddr = ''10.0.0.1:4711'', Connect = 0, modelNode = None, pushChannel = []\<rparr>
   \<and> cdsPushAll [''sidecar~a-1''] example_registered
       = Completed (example_registered\<lparr>conns :=
           [0 \<mapsto> \<lparr>PeerAddr = ''10.0.0.1:4711'', Connect = 0, modelNode = None, pushChannel = [True]\<rparr>]\<rparr>)
   \<and> conns (cdsPushAll_triggers [[''sidecar~a-1''], [''sidecar~a-1''], [''sidecar~a-1'']] example_registered) 0
       = Some \<lparr>PeerAddr = ''10.0.0.1:4711'', Connect = 0, modelNode = None, pushChannel = [True]\<rparr>
   \<and> cdsConnections example_pending ''sidecar~a-1'' = Some 0
   \<and> conns example_pending 0
       = Some \<lparr>PeerAddr = ''10.0.0.1:4711'', Connect = 0, modelNode = Some \<lparr>ID = ''svc-a''\<rparr>, pushChannel = [True]\<rparr>
   \<and> cdsPushAll_range (cdsConnections example_pending) [''sidecar~a-1''] example_pending
       = Blocked ''sidecar~a-1'' example_pending"
  using cdsPushAll_blocking_send
    [of "cdsConnections example_registered" "''sidecar~a-1''" 0 example_registered
        "\<lparr>PeerAddr = ''10.0.0.1:4711'', Connect = 0, modelNode = None, pushChannel = []\<rparr>"
        "[]" "[''sidecar~a-1'']"
        "example_registered\<lparr>conns :=
           [0 \<mapsto> \<lparr>PeerAddr = ''10.0.0.1:4711'', Connect = 0, modelNode = None, pushChannel = [True]\<rparr>]\<rparr>"
        "[[''sidecar~a-1''], [''sidecar~a-1''], [''sidecar~a-1'']]"]
    cdsPushAll_blocking_send
    [of "cdsConnections example_pending" "''sidecar~a-1''" 0 example_pending
        "\<lparr>PeerAddr = ''10.0.0.1:4711'', Connect = 0, modelNode = Some \<lparr>ID = ''svc-a''\<rparr>, pushChannel = [True]\<rparr>"
        "[]" "[]" example_pending "[]"]
  by (simp add: example_registered_def example_pending_def cdsPushAll_def chan_send_def pushChannel_cap_def)

section \<open>The registry during a stream\<close>

lemma removeCdsCon_registry: "cdsConnections (removeCdsCon k c w) = cdsConnections w"
  by (simp add: removeCdsCon_def)

lemma select_case_registry:
  "select_case e sel s w = (f, s1, w1, as) \<Longrightarrow> cdsConnections w1 = cdsConnections w"
  by (auto simp: select_case_def Let_def
           split: selected.splits option.splits sum.splits list.splits if_splits)

lemma push_clusters_registry:
  "push_clusters e s w = (f, s1, w1, as) \<Longrightarrow> cdsConnections w1 = cdsConnections w"
  by (auto simp: push_clusters_def Let_def split: option.splits)

lemma loop_body_registry:
  "loop_body e sel s w = (f, s1, w1, as) \<Longrightarrow> cdsConnections w1 = cdsConnections w"
  unfolding loop_body_def
  by (auto split: prod.splits flow.splits dest: select_case_registry)
     (metis select_case_registry push_clusters_registry)

lemma reader_iteration_registry:
  "reader_iteration r s w = (res, s1, w1, as) \<Longrightarrow> cdsConnections w1 = cdsConnections w"
  by (auto simp: reader_iteration_def Let_def removeCdsCon_registry split: sum.splits)

lemma step_registry:
  "step e ev s w = (f, s1, w1, as) \<Longrightarrow> cdsConnections w1 = cdsConnections w"
  unfolding step_def
  by (auto split: event.splits prod.splits dest: loop_body_registry)
     (metis loop_body_registry reader_iteration_registry)

lemma StreamClusters_loop_registry:
  "StreamClusters_loop e evs s w = (f, s1, w1, as) \<Longrightarrow> cdsConnections w1 = cdsConnections w"
proof (induction evs arbitrary: s w f s1 w1 as)
  case Nil
  then show ?case by simp
next
  case (Cons ev evs)
  obtain g t v bs where st: "step e ev s w = (g, t, v, bs)"
    by (cases "step e ev s w") auto
  from step_registry [OF st] have v: "cdsConnections v = cdsConnections w" .
  show ?case
  proof (cases "g = Continue \<or> g = Wait")
    case True
    obtain g' t' v' cs where lp: "StreamClusters_loop e evs t v = (g', t', v', cs)"
      by (cases "StreamClusters_loop e evs t v") auto
    from Cons.prems st True lp have "w1 = v'" by auto
    with Cons.IH [OF lp] v show ?thesis by simp
  next
    case False
    with Cons.prems st have "w1 = v" by auto
    with v show ?thesis by simp
  qed
qed

text \<open>
  C2: what the code does where the claim asks for the connection to stand in the
  registry during the stream. Opening a stream leaves \<^verbatim>\<open>cdsConnections\<close> as it was
  (the new connection is not added), and so does the whole run of the handler and
  its reader, whatever the events and however the stream ends: an entry is neither
  added nor removed.
\<close>

theorem StreamClusters_never_registers:
  "cdsConnections (snd (StreamClusters_open peer now w)) = cdsConnections w
   \<and> cdsConnections (fst (snd (snd (StreamClusters e peer now evs w)))) = cdsConnections w"
proof -
  obtain s w0 where op: "StreamClusters_open peer now w = (s, w0)"
    by (cases "StreamClusters_open peer now w") auto
  have a: "cdsConnections w0 = cdsConnections w"
    using op by (auto simp: StreamClusters_open_def Let_def)
  obtain f s1 w1 as where lp: "StreamClusters_loop e evs s w0 = (f, s1, w1, as)"
    by (cases "StreamClusters_loop e evs s w0") auto
  from StreamClusters_loop_registry [OF lp] a op lp show ?thesis
    by (simp add: StreamClusters_def)
qed

section \<open>removeCdsCon\<close>

text \<open>
  C3: what the code does where the claim asks for the entry of a key to be deleted
  when it is the passed connection. With connection 0 registered under a key,
  \<^verbatim>\<open>removeCdsCon\<close> called with that key and connection 0 leaves the entry in the
  registry: its body is empty, so it deletes no entry, the identical one included.
\<close>

theorem removeCdsCon_keeps_identical_entry:
  "cdsConnections
     (removeCdsCon ''sidecar~a-1'' 0 (example_world\<lparr>cdsConnections := [''sidecar~a-1'' \<mapsto> 0]\<rparr>))
     ''sidecar~a-1'' = Some 0"
  by (simp add: removeCdsCon_def example_world_def)

section \<open>A failing producer\<close>

text \<open>
  C4, as the claim states it, fails: with a producer that returns an error, the
  initial request still has a response sent to the stream, and nothing is logged.
\<close>

theorem producer_error_counterexample:
  "snd (BuildClusters failing_producer 0 \<lparr>ID = ''svc-a''\<rparr>) = Some (PlainError ''no service registry'')
   \<and> snd (snd (snd (StreamClusters failing_producer None 0
                      [Recv (Inr (example_request ''svc-a''))] example_world)))
       = [CallBuildClusters \<lparr>ID = ''svc-a''\<rparr>,
          StreamSend \<lparr>TypeUrl = ''type.googleapis.com/envoy.api.v2.Cluster'',
                      VersionInfo = ''version'', Nonce = ''nonce'', Resources = []\<rparr>]"
  by (simp add: failing_producer_def example_defs)

text \<open>
  C4, amended: on every trigger for which \<^verbatim>\<open>BuildClusters\<close> returns an error, the
  error is dropped without a log entry and the response built from the clusters
  returned with it is sent to the stream. When the send succeeds the handler goes
  back to the head of its loop, the world (the registry with it) unchanged; the
  stream ends only when the send itself fails, with the send error.
\<close>

theorem producer_error_response_sent:
  assumes "conns w (con s) = Some c" and "modelNode c = Some nt"
    and "BuildClusters e (pushes s) nt = (cs, Some err)"
    and "clusters e (pushes s) cs = Some response"
  shows "push_clusters e s w =
           (case stream_Send e (pushes s) response of
              None \<Rightarrow>
                (Continue, s\<lparr>pushes := Suc (pushes s)\<rparr>, w,
                 [CallBuildClusters nt, StreamSend response]
                 @ (if cdsDebug w then [Infof ''CDS: PUSH''] else []))
            | Some sendErr \<Rightarrow>
                (Return (Some sendErr), s\<lparr>pushes := Suc (pushes s)\<rparr>, w,
                 [CallBuildClusters nt, StreamSend response,
                  Warnf ''CDS: Send failure, closing grpc'']))"
  using assms by (simp add: push_clusters_def Let_def split: option.splits)

theorem producer_error_response_sent_witness:
  "conns example_active (con example_stream)
     = Some \<lparr>PeerAddr = ''10.0.0.1:4711'', Connect = 0,
             modelNode = Some \<lparr>ID = ''svc-a''\<rparr>, pushChannel = []\<rparr>
   \<and> BuildClusters failing_producer (pushes example_stream) \<lparr>ID = ''svc-a''\<rparr>
       = ([], Some (PlainError ''no service registry''))
   \<and> push_clusters failing_producer example_stream example_active
       = (Continue, example_stream\<lparr>pushes := 2\<rparr>, example_active,
          [CallBuildClusters \<lparr>ID = ''svc-a''\<rparr>,
           StreamSend \<lparr>TypeUrl = ''type.googleapis.com/envoy.api.v2.Cluster'',
                       VersionInfo = ''version'', Nonce = ''nonce'', Resources = []\<rparr>])"
  using producer_error_response_sent
    [of example_active example_stream
        "\<lparr>PeerAddr = ''10.0.0.1:4711'', Connect = 0,
          modelNode = Some \<lparr>ID = ''svc-a''\<rparr>, pushChannel = []\<rparr>"
        "\<lparr>ID = ''svc-a''\<rparr>" failing_producer "[]" "PlainError ''no service registry''"
        "\<lparr>TypeUrl = ''type.googleapis.com/envoy.api.v2.Cluster'',
          VersionInfo = ''version'', Nonce = ''nonce'', Resources = []\<rparr>"]
  by (simp add: example_active_def example_stream_def failing_producer_def example_env_def
                clusters_def)

section \<open>The proxy identity\<close>

text \<open>
  C5, as the claim states it, fails: after the initial request from "svc-a", a second
  request whose node string does not parse ends the stream with the parse error.
\<close>

theorem later_request_parse_counterexample:
  "fst (StreamClusters example_env None 0
          [Recv (Inr (example_request ''svc-a'')), Recv (Inr (example_request []))] example_world)
     = Return (Some (PlainError ''missing parts in the service node''))"
  by (simp add: example_defs)

text \<open>
  C5, amended: the proxy identity is parsed from every inbound request that carries a
  node, the first and every later one. A failing parse ends the stream with the parse
  error, on whichever request it happens; a successful parse is attached to the
  connection, replacing the identity attached before, and the handler goes on (to
  the initial push on the first request, to the head of the loop on a later one).
\<close>

theorem identity_parsed_on_every_request:
  assumes "Node discReq = Some nd" and "conns w (con s) = Some c"
  shows "case ParseServiceNode e (NodeId nd) of
           Inl err \<Rightarrow> fst (select_case e (FromReqChannel (Some discReq)) s w) = Return (Some err)
         | Inr nt \<Rightarrow>
             (case select_case e (FromReqChannel (Some discReq)) s w of
                (f, s1, w1, as) \<Rightarrow>
                  f = (if initialRequestReceived s then Continue else Next)
                  \<and> conns w1 (con s) = Some (c\<lparr>modelNode := Some nt\<rparr>))"
  using assms by (simp add: select_case_def Let_def split: sum.splits)

theorem identity_parsed_on_every_request_witness:
  "Node (example_request ''svc-b'') = Some \<lparr>NodeId = ''svc-b''\<rparr>
   \<and> conns example_active (con example_stream)
       = Some \<lparr>PeerAddr = ''10.0.0.1:4711'', Connect = 0,
               modelNode = Some \<lparr>ID = ''svc-a''\<rparr>, pushChannel = []\<rparr>
   \<and> initialRequestReceived example_stream
   \<and> (case select_case example_env (FromReqChannel (Some (example_request ''svc-b'')))
              example_stream example_active of
         (f, s1, w1, as) \<Rightarrow>
           f = Continue
           \<and> conns w1 (con example_stream)
               = Some \<lparr>PeerAddr = ''10.0.0.1:4711'', Connect = 0,
                       modelNode = Some \<lparr>ID = ''svc-b''\<rparr>, pushChannel = []\<rparr>)
   \<and> Node (example_request []) = Some \<lparr>NodeId = []\<rparr>
   \<and> fst (select_case example_env (FromReqChannel (Some (example_request [])))
            example_stream example_active)
       = Return (Some (PlainError ''missing parts in the service node''))"
  using identity_parsed_on_every_request
    [of "example_request ''svc-b''" "\<lparr>NodeId = ''svc-b''\<rparr>" example_active example_stream
        "\<lparr>PeerAddr = ''10.0.0.1:4711'', Connect = 0,
          modelNode = Some \<lparr>ID = ''svc-a''\<rparr>, pushChannel = []\<rparr>"
        example_env]
    identity_parsed_on_every_request
    [of "example_request []" "\<lparr>NodeId = []\<rparr>" example_active example_stream
        "\<lparr>PeerAddr = ''10.0.0.1:4711'', Connect = 0,
          modelNode = Some \<lparr>ID = ''svc-a''\<rparr>, pushChannel = []\<rparr>"
        example_env]
  by (simp add: example_active_def example_stream_def example_env_def example_request_def)

section \<open>Acknowledgements\<close>

text \<open>
  C7, as the claim states it, fails: with \<^verbatim>\<open>cdsDebug\<close> off, an acknowledgement that
  carries no error detail is not logged; the handler does nothing that can be observed.
\<close>

theorem silent_ack_counterexample:
  "\<not> cdsDebug example_active
   \<and> initialRequestReceived example_stream
   \<and> ErrorDetail (example_request ''svc-a'') = None
   \<and> loop_body example_env (FromReqChannel (Some (example_request ''svc-a'')))
        example_stream example_active
       = (Continue, example_stream, example_active, [])"
  by (simp add: example_defs example_stream_def example_active_def)

text \<open>
  C7, amended: for every request received after the initial one whose node is present
  and parses, the handler goes back to the head of its loop without calling
  \<^verbatim>\<open>BuildClusters\<close> and without sending a response. It logs a warning exactly when the
  request carries error detail and an info line exactly when \<^verbatim>\<open>cdsDebug\<close> is on, so a
  plain acknowledgement is not logged when \<^verbatim>\<open>cdsDebug\<close> is off. The error detail
  reaches nothing but the log: the stream and the world the handler goes on with do
  not depend on it.
\<close>

theorem ack_sends_nothing:
  assumes "initialRequestReceived s" and "Node discReq = Some nd"
    and "ParseServiceNode e (NodeId nd) = Inr nt" and "conns w (con s) = Some c"
  shows "loop_body e (FromReqChannel (Some discReq)) s w =
           (Continue,
            (if node s = [] then s\<lparr>node := connectionID e (NodeId nd)\<rparr> else s),
            w\<lparr>conns := (conns w)(con s \<mapsto> c\<lparr>modelNode := Some nt\<rparr>)\<rparr>,
            (if ErrorDetail discReq \<noteq> None then [Warnf ''CDS: ACK ERROR''] else [])
            @ (if cdsDebug w then [Infof ''CDS: ACK''] else []))"
  using assms by (simp add: loop_body_def select_case_def Let_def)

theorem ack_sends_nothing_witness:
  "initialRequestReceived example_stream
   \<and> Node \<lparr>Node = Some \<lparr>NodeId = ''svc-a''\<rparr>, ErrorDetail = Some ''rejected''\<rparr>
       = Some \<lparr>NodeId = ''svc-a''\<rparr>
   \<and> ParseServiceNode example_env (NodeId \<lparr>NodeId = ''svc-a''\<rparr>) = Inr \<lparr>ID = ''svc-a''\<rparr>
   \<and> conns (example_active\<lparr>cdsDebug := True\<rparr>) (con example_stream)
       = Some \<lparr>PeerAddr = ''10.0.0.1:4711'', Connect = 0,
               modelNode = Some \<lparr>ID = ''svc-a''\<rparr>, pushChannel = []\<rparr>
   \<and> loop_body example_env
         (FromReqChannel (Some \<lparr>Node = Some \<lparr>NodeId = ''svc-a''\<rparr>, ErrorDetail = Some ''rejected''\<rparr>))
         example_stream (example_active\<lparr>cdsDebug := True\<rparr>)
       = (Continue, example_stream, example_active\<lparr>cdsDebug := True\<rparr>,
          [Warnf ''CDS: ACK ERROR'', Infof ''CDS: ACK''])"
  using ack_sends_nothing
    [of example_stream "\<lparr>Node = Some \<lparr>NodeId = ''svc-a''\<rparr>, ErrorDetail = Some ''rejected''\<rparr>"
        "\<lparr>NodeId = ''svc-a''\<rparr>" example_env "\<lparr>ID = ''svc-a''\<rparr>"
        "example_active\<lparr>cdsDebug := True\<rparr>"
        "\<lparr>PeerAddr = ''10.0.0.1:4711'', Connect = 0,
          modelNode = Some \<lparr>ID = ''svc-a''\<rparr>, pushChannel = []\<rparr>"]
  by (simp add: example_active_def example_stream_def example_env_def)

section \<open>A failing Recv\<close>

lemma select_case_receiveError:
  "select_case e sel s w = (f, s1, w1, as) \<Longrightarrow> receiveError s1 = receiveError s"
  by (auto simp: select_case_def Let_def
           split: selected.splits option.splits sum.splits list.splits if_splits)

lemma push_clusters_receiveError:
  "push_clusters e s w = (f, s1, w1, as) \<Longrightarrow> receiveError s1 = receiveError s"
  by (auto simp: push_clusters_def Let_def split: option.splits)

lemma loop_body_receiveError:
  "loop_body e sel s w = (f, s1, w1, as) \<Longrightarrow> receiveError s1 = receiveError s"
  unfolding loop_body_def
  by (auto split: prod.splits flow.splits dest: select_case_receiveError)
     (metis select_case_receiveError push_clusters_receiveError)

lemma loop_body_closed:
  "loop_body e (FromReqChannel None) s w = (Return (receiveError s), s, w, [])"
  by (simp add: loop_body_def select_case_def)

text \<open>The reader's failure path followed by the handler taking the closed channel.\<close>

lemma step_Recv_error:
  "step e (Recv (Inl err)) s w =
     (Return (if status_Code (Some err) = Canceled \<or> err = EOF then receiveError s else Some err),
      (if status_Code (Some err) = Canceled \<or> err = EOF then s else s\<lparr>receiveError := Some err\<rparr>),
      w, [Errorf ''CDS: close for client'', CallRemoveCdsCon (node s) (con s)])"
  by (simp add: step_def reader_iteration_def Let_def loop_body_closed removeCdsCon_def)

lemma step_continue_receiveError:
  assumes "step e ev s w = (f, s1, w1, as)" and "f = Continue \<or> f = Wait"
  shows "receiveError s1 = receiveError s"
proof (cases ev)
  case Push
  with assms(1) show ?thesis by (auto simp: step_def dest: loop_body_receiveError)
next
  case (Recv r)
  show ?thesis
  proof (cases r)
    case (Inl err)
    with Recv assms show ?thesis by (auto simp: step_Recv_error)
  next
    case (Inr req)
    with Recv assms(1) show ?thesis
      by (auto simp: step_def reader_iteration_def split: prod.splits dest: loop_body_receiveError)
  qed
qed

text \<open>While the handler is in its loop, \<^verbatim>\<open>receiveError\<close> is what it was.\<close>

lemma StreamClusters_loop_waiting:
  "StreamClusters_loop e evs s w = (Wait, s1, w1, as) \<Longrightarrow> receiveError s1 = receiveError s"
proof (induction evs arbitrary: s w as)
  case Nil
  then show ?case by simp
next
  case (Cons ev evs)
  obtain g t v bs where st: "step e ev s w = (g, t, v, bs)"
    by (cases "step e ev s w") auto
  show ?case
  proof (cases "g = Continue \<or> g = Wait")
    case True
    obtain g' t' v' cs where lp: "StreamClusters_loop e evs t v = (g', t', v', cs)"
      by (cases "StreamClusters_loop e evs t v") auto
    from Cons.prems st True lp have "g' = Wait" "t' = s1" "v' = w1" by auto
    with Cons.IH [of t v cs] lp have "receiveError s1 = receiveError t" by simp
    with step_continue_receiveError [OF st True] show ?thesis by simp
  next
    case False
    with Cons.prems st show ?thesis by auto
  qed
qed

lemma StreamClusters_loop_append:
  "StreamClusters_loop e evs s w = (Wait, s1, w1, as) \<Longrightarrow>
   StreamClusters_loop e (evs @ evs') s w =
     (case StreamClusters_loop e evs' s1 w1 of (f, s2, w2, bs) \<Rightarrow> (f, s2, w2, as @ bs))"
proof (induction evs arbitrary: s w as)
  case Nil
  then show ?case by (auto split: prod.splits)
next
  case (Cons ev evs)
  obtain g t v bs where st: "step e ev s w = (g, t, v, bs)"
    by (cases "step e ev s w") auto
  show ?case
  proof (cases "g = Continue \<or> g = Wait")
    case True
    obtain g' t' v' cs where lp: "StreamClusters_loop e evs t v = (g', t', v', cs)"
      by (cases "StreamClusters_loop e evs t v") auto
    from Cons.prems st True lp have eqs: "g' = Wait" "t' = s1" "v' = w1" "as = bs @ cs" by auto
    from Cons.IH [of t v cs] lp eqs
    have "StreamClusters_loop e (evs @ evs') t v =
            (case StreamClusters_loop e evs' s1 w1 of (f, s2, w2, ds) \<Rightarrow> (f, s2, w2, cs @ ds))"
      by simp
    with st True eqs show ?thesis by (auto split: prod.splits)
  next
    case False
    with Cons.prems st show ?thesis by auto
  qed
qed

text \<open>
  C8: when the reader's \<^verbatim>\<open>Recv\<close> fails on a stream whose handler is in its loop
  (waiting in the \<^verbatim>\<open>select\<close> after the events so far), the handler returns, and what
  it returns classifies the failure: nil for \<^verbatim>\<open>io.EOF\<close> and for a gRPC cancellation,
  the read error itself for any other error, which is also what \<^verbatim>\<open>receiveError\<close>
  then holds.
\<close>

theorem Recv_failure_classified:
  assumes "fst (StreamClusters e peer now evs w) = Wait"
  shows "fst (StreamClusters e peer now (evs @ [Recv (Inl err)]) w)
           = Return (if status_Code (Some err) = Canceled \<or> err = EOF then None else Some err)
         \<and> receiveError (fst (snd (StreamClusters e peer now (evs @ [Recv (Inl err)]) w)))
             = (if status_Code (Some err) = Canceled \<or> err = EOF then None else Some err)"
proof -
  obtain s w0 where op: "StreamClusters_open peer now w = (s, w0)"
    by (cases "StreamClusters_open peer now w") auto
  then have r0: "receiveError s = None"
    by (auto simp: StreamClusters_open_def Let_def)
  obtain f s1 w1 as where lp: "StreamClusters_loop e evs s w0 = (f, s1, w1, as)"
    by (cases "StreamClusters_loop e evs s w0") auto
  with assms op have f: "f = Wait" by (simp add: StreamClusters_def)
  from StreamClusters_loop_waiting lp f r0 have r1: "receiveError s1 = None" by auto
  from StreamClusters_loop_append [of e evs s w0 s1 w1 as "[Recv (Inl err)]"] lp f
  have "StreamClusters_loop e (evs @ [Recv (Inl err)]) s w0 =
          (case StreamClusters_loop e [Recv (Inl err)] s1 w1 of
             (f, s2, w2, bs) \<Rightarrow> (f, s2, w2, as @ bs))"
    by simp
  with op r1 show ?thesis
    by (simp add: StreamClusters_def step_Recv_error)
qed

theorem Recv_failure_classified_witness:
  "fst (StreamClusters example_env None 0 [Recv (Inr (example_request ''svc-a''))] example_world)
     = Wait
   \<and> fst (StreamClusters example_env None 0
            [Recv (Inr (example_request ''svc-a'')),
             Recv (Inl (StatusError Canceled ''context canceled''))] example_world)
       = Return None
   \<and> fst (StreamClusters example_env None 0
            [Recv (Inr (example_request ''svc-a'')), Recv (Inl EOF)] example_world)
       = Return None
   \<and> fst (StreamClusters example_env None 0
            [Recv (Inr (example_request ''svc-a'')),
             Recv (Inl (PlainError ''connection reset''))] example_world)
       = Return (Some (PlainError ''connection reset''))"
  using Recv_failure_classified
          [of example_env None 0 "[Recv (Inr (example_request ''svc-a''))]" example_world
              "StatusError Canceled ''context canceled''"]
        Recv_failure_classified
          [of example_env None 0 "[Recv (Inr (example_request ''svc-a''))]" example_world EOF]
        Recv_failure_classified
          [of example_env None 0 "[Recv (Inr (example_request ''svc-a''))]" example_world
              "PlainError ''connection reset''"]
  by (simp add: example_defs)

section \<open>No response before the proxy identity\<close>















section \<open>FetchClusters\<close>

text \<open>
  C9: for every context and request, \<^verbatim>\<open>FetchClusters\<close> returns the nil response
  together with the error "not implemented"; the error is never nil.
\<close>

theorem FetchClusters_not_implemented:
  "FetchClusters ctx req = (None, Some (PlainError ''not implemented''))"
  by (simp add: FetchClusters_def errors_New_def)

section \<open>Cdsz\<close>

text \<open>
  C10: a request whose "debug" parameter is not empty makes \<^verbatim>\<open>Cdsz\<close> set \<^verbatim>\<open>cdsDebug\<close>
  (true exactly when the value is "1") and return at once: nothing is written, and the
  world is otherwise unchanged, so no push signal was sent, whatever "push" holds.
  With "debug" empty, any non-empty "push" value makes \<^verbatim>\<open>Cdsz\<close> call \<^verbatim>\<open>cdsPushAll\<close>
  before it writes the marshalled registry.
\<close>

theorem Cdsz_debug_returns_early:
  "(Form_Get form ''debug'' \<noteq> [] \<longrightarrow>
      Cdsz json_Marshal order form w
        = CdszReturned (w\<lparr>cdsDebug := (Form_Get form ''debug'' = ''1'')\<rparr>) [])
   \<and> (Form_Get form ''debug'' = [] \<and> Form_Get form ''push'' \<noteq> [] \<longrightarrow>
        Cdsz json_Marshal order form w
          = (case cdsPushAll order w of
               Blocked k w1 \<Rightarrow> CdszBlocked k w1
             | PushPanic w1 \<Rightarrow> CdszPanic w1
             | Completed w1 \<Rightarrow>
                 (case json_Marshal (cdsConnections w1) (conns w1) of
                    Inl err \<Rightarrow> CdszReturned w1 [ErrorText err]
                  | Inr data \<Rightarrow> CdszReturned w1 [Data data])))"
  by (simp add: Cdsz_def)

theorem Cdsz_debug_returns_early_witness:
  "Form_Get [''debug'' \<mapsto> [''0''], ''push'' \<mapsto> [''1'']] ''debug'' \<noteq> []
   \<and> Cdsz (\<lambda>reg store. Inr ''{}'') [''sidecar~a-1'']
        [''debug'' \<mapsto> [''0''], ''push'' \<mapsto> [''1'']] example_registered
       = CdszReturned (example_registered\<lparr>cdsDebug := False\<rparr>) []
   \<and> Form_Get [''push'' \<mapsto> [''yes'']] ''debug'' = []
   \<and> Form_Get [''push'' \<mapsto> [''yes'']] ''push'' \<noteq> []
   \<and> Cdsz (\<lambda>reg store. Inr ''{}'') [''sidecar~a-1''] [''push'' \<mapsto> [''yes'']] example_registered
       = CdszReturned
           (example_registered\<lparr>conns :=
              [0 \<mapsto> \<lparr>PeerAddr = ''10.0.0.1:4711'', Connect = 0,
                      modelNode = None, pushChannel = [True]\<rparr>]\<rparr>)
           [Data ''{}'']"
  using Cdsz_debug_returns_early
          [of "[''debug'' \<mapsto> [''0''], ''push'' \<mapsto> [''1'']]" "\<lambda>reg store. Inr ''{}''"
              "[''sidecar~a-1'']" example_registered]
        Cdsz_debug_returns_early
          [of "[''push'' \<mapsto> [''yes'']]" "\<lambda>reg store. Inr ''{}''" "[''sidecar~a-1'']"
              example_registered]
  by (simp add: Form_Get_def example_registered_def cdsPushAll_def chan_send_def
                pushChannel_cap_def)

end
